theory Spec2Isabelle
  imports Complex_Main
begin

section \<open>Python values, exceptions and results\<close>

text \<open>
  The service is one Python module, \<^verbatim>\<open>app.py\<close>: module-level start-up code, the
  helper \<^verbatim>\<open>generate_self_signed_cert\<close> and the request handler \<^verbatim>\<open>detect\<close>.
  Everything else is a call into Flask, base64, Pillow, numpy, Keras or the
  cryptography package. Those libraries are not part of the module: their
  operations are parameters of the model (the records \<open>deps\<close> and \<open>crypto\<close>
  below), and what the module itself does with their results is defined here.

  An exception is a value. \<open>exn\<close> stands for instances of Python's class
  \<^verbatim>\<open>Exception\<close>: the ones the interpreter raises for a failed subscript or
  index, and the ones the libraries raise. A computation that may raise returns
  \<open>exn + 'a\<close>, with \<open>Inl\<close> for the exception.
\<close>

datatype exn =
    KeyError string
  | TypeError string
  | IndexError string
  | ValueError string
  | Raised string string

text \<open>
  \<^verbatim>\<open>str(e)\<close>: a \<^verbatim>\<open>KeyError\<close> prints the repr of the missing key, every
  other exception its message. \<open>Raised c m\<close> is an exception of class \<open>c\<close>
  with message \<open>m\<close> coming out of a library.
\<close>

definition py_repr :: "string \<Rightarrow> string" where
  "py_repr s = CHR 0x27 # s @ [CHR 0x27]"

fun str_exn :: "exn \<Rightarrow> string" where
  "str_exn (KeyError k) = py_repr k"
| "str_exn (TypeError m) = m"
| "str_exn (IndexError m) = m"
| "str_exn (ValueError m) = m"
| "str_exn (Raised c m) = m"

definition bind_exn :: "exn + 'a \<Rightarrow> ('a \<Rightarrow> exn + 'b) \<Rightarrow> exn + 'b" where
  "bind_exn m f = (case m of Inl e \<Rightarrow> Inl e | Inr x \<Rightarrow> f x)"

text \<open>
  What \<^verbatim>\<open>request.get_json()\<close> returns and what \<^verbatim>\<open>jsonify\<close> takes: JSON
  values as Python objects. An object is a dict, written as an association list
  that \<open>map_of\<close> reads; the keys of a dict are distinct.
\<close>

datatype json =
    JNull
  | JBool bool
  | JInt int
  | JFloat real
  | JStr string
  | JArr "json list"
  | JObj "(string \<times> json) list"

text \<open>
  \<^verbatim>\<open>data['image']\<close>: the subscript of a Python value by a string. A dict
  without the key raises \<^verbatim>\<open>KeyError\<close>; a value that is not a dict raises
  \<^verbatim>\<open>TypeError\<close>.
\<close>

fun subscript :: "json \<Rightarrow> string \<Rightarrow> exn + json" where
  "subscript (JObj kvs) k =
     (case map_of kvs k of None \<Rightarrow> Inl (KeyError k) | Some v \<Rightarrow> Inr v)"
| "subscript JNull k = Inl (TypeError (py_repr ''NoneType'' @ '' object is not subscriptable''))"
| "subscript (JBool b) k = Inl (TypeError (py_repr ''bool'' @ '' object is not subscriptable''))"
| "subscript (JInt i) k = Inl (TypeError (py_repr ''int'' @ '' object is not subscriptable''))"
| "subscript (JFloat x) k = Inl (TypeError (py_repr ''float'' @ '' object is not subscriptable''))"
| "subscript (JStr s) k = Inl (TypeError (''string indices must be integers, not '' @ py_repr ''str''))"
| "subscript (JArr xs) k = Inl (TypeError ''list indices must be integers or slices, not str'')"

text \<open>\<^verbatim>\<open>xs[i]\<close> on a Python list with an index that is not negative.\<close>

definition list_getitem :: "'a list \<Rightarrow> nat \<Rightarrow> exn + 'a" where
  "list_getitem xs i =
     (if i < length xs then Inr (xs ! i) else Inl (IndexError ''list index out of range''))"

section \<open>Requests, responses, images and arrays\<close>

record request =
  content_type :: string
  body :: string

record response =
  status_code :: nat
  payload :: json

text \<open>
  \<^verbatim>\<open>jsonify(obj)\<close> builds the response that carries \<open>obj\<close> as its JSON body,
  with Flask's default status 200.
\<close>

definition jsonify :: "json \<Rightarrow> response" where
  "jsonify obj = \<lparr>status_code = 200, payload = obj\<rparr>"

text \<open>
  A Pillow image, as far as the handler can tell images apart: its mode, its
  size (width, height) and its samples. A numpy array is its shape and its
  elements in row-major order; a finite float is the real number it denotes.
\<close>

record image =
  mode :: string
  dims :: "nat \<times> nat"
  pixels :: "nat list"

record ndarray =
  shape :: "nat list"
  elems :: "real list"

text \<open>
  \<^verbatim>\<open>arr / c\<close> divides every element; the quotient of two floats is the exact
  quotient rounded to the array's float format, and the rounding function is the
  parameter \<open>rnd\<close>. \<^verbatim>\<open>np.expand_dims(arr, axis)\<close> inserts an axis of length 1.
\<close>

definition np_true_divide :: "(real \<Rightarrow> real) \<Rightarrow> ndarray \<Rightarrow> real \<Rightarrow> ndarray" where
  "np_true_divide rnd arr c = arr\<lparr>elems := map (\<lambda>x. rnd (x / c)) (elems arr)\<rparr>"

definition np_expand_dims :: "ndarray \<Rightarrow> nat \<Rightarrow> exn + ndarray" where
  "np_expand_dims arr axis =
     (if axis \<le> length (shape arr)
      then Inr (arr\<lparr>shape := take axis (shape arr) @ 1 # drop axis (shape arr)\<rparr>)
      else Inl (Raised ''AxisError'' ''axis is out of bounds''))"

text \<open>
  \<^verbatim>\<open>preds[0]\<close>, \<^verbatim>\<open>np.argmax(row)\<close> and \<^verbatim>\<open>np.max(row)\<close> on the rows of a
  two-dimensional array. numpy's argmax scans the row once and keeps the first
  index whose value beats everything before it; max folds the row with the
  binary maximum. Both refuse an empty row.
\<close>

definition np_row0 :: "real list list \<Rightarrow> exn + real list" where
  "np_row0 rows =
     (case rows of
        [] \<Rightarrow> Inl (IndexError ''index 0 is out of bounds for axis 0 with size 0'')
      | r # _ \<Rightarrow> Inr r)"

fun argmax_scan :: "real list \<Rightarrow> nat \<Rightarrow> real \<Rightarrow> nat \<Rightarrow> nat" where
  "argmax_scan [] i best best_i = best_i"
| "argmax_scan (x # xs) i best best_i =
     (if best < x then argmax_scan xs (Suc i) x i else argmax_scan xs (Suc i) best best_i)"

definition np_argmax :: "real list \<Rightarrow> exn + nat" where
  "np_argmax row =
     (case row of
        [] \<Rightarrow> Inl (ValueError ''attempt to get argmax of an empty sequence'')
      | x # xs \<Rightarrow> Inr (argmax_scan xs 1 x 0))"

definition np_max :: "real list \<Rightarrow> exn + real" where
  "np_max row =
     (case row of
        [] \<Rightarrow> Inl (ValueError ''zero-size array to reduction operation maximum which has no identity'')
      | x # xs \<Rightarrow> Inr (foldl max x xs))"

section \<open>The libraries behind the handler\<close>

text \<open>
  \<open>get_json\<close> is Flask's parser of the request body; \<open>b64decode\<close> takes
  whatever Python value the body held under \<^verbatim>\<open>image\<close>; \<open>Image_open\<close>,
  \<open>convert\<close> and \<open>resize\<close> are Pillow's; \<open>img_to_array\<close> is Keras's;
  \<open>float_round\<close> rounds a real to the float format of the array;
  \<open>predict\<close> is the forward pass of the model loaded at start-up. Each may
  raise.
\<close>

record deps =
  get_json :: "request \<Rightarrow> exn + json"
  b64decode :: "json \<Rightarrow> exn + string"
  Image_open :: "string \<Rightarrow> exn + image"
  convert :: "image \<Rightarrow> string \<Rightarrow> exn + image"
  resize :: "image \<Rightarrow> nat \<times> nat \<Rightarrow> exn + image"
  img_to_array :: "image \<Rightarrow> exn + ndarray"
  float_round :: "real \<Rightarrow> real"
  predict :: "ndarray \<Rightarrow> exn + real list list"

section \<open>The handler \<^verbatim>\<open>detect\<close>\<close>

definition class_labels :: "string list" where
  "class_labels = [''mask'', ''no_mask'']"

text \<open>
  Lines 86 to 92 of \<^verbatim>\<open>detect\<close>: from the value under \<^verbatim>\<open>image\<close> to the array
  handed to the model.
\<close>

definition preprocess :: "deps \<Rightarrow> json \<Rightarrow> exn + ndarray" where
  "preprocess d image_data =
     bind_exn (b64decode d image_data) (\<lambda>image_bytes.
     bind_exn (Image_open d image_bytes) (\<lambda>opened.
     bind_exn (convert d opened ''RGB'') (\<lambda>image.
     bind_exn (resize d image (224, 224)) (\<lambda>image.
     bind_exn (img_to_array d image) (\<lambda>arr.
     np_expand_dims (np_true_divide (float_round d) arr 255) 0)))))"

text \<open>The body of the \<^verbatim>\<open>try\<close> block, lines 82 to 104.\<close>

definition detect_try :: "deps \<Rightarrow> request \<Rightarrow> exn + response" where
  "detect_try d req =
     bind_exn (get_json d req) (\<lambda>data.
     bind_exn (subscript data ''image'') (\<lambda>image_data.
     bind_exn (preprocess d image_data) (\<lambda>img_array.
     bind_exn (predict d img_array) (\<lambda>preds.
     bind_exn (np_row0 preds) (\<lambda>row.
     bind_exn (np_argmax row) (\<lambda>class_index.
     bind_exn (np_row0 preds) (\<lambda>row'.
     bind_exn (np_max row') (\<lambda>confidence.
     bind_exn (list_getitem class_labels class_index) (\<lambda>prediction.
     Inr (jsonify (JObj [(''status'', JStr ''success''),
                         (''prediction'', JStr prediction),
                         (''confidence'', JFloat confidence)])))))))))))"

text \<open>
  The handler: the \<^verbatim>\<open>try\<close> block, and the clause \<^verbatim>\<open>except Exception as e\<close>
  that answers with the exception's text.
\<close>

definition error_response :: "exn \<Rightarrow> response" where
  "error_response e =
     jsonify (JObj [(''status'', JStr ''error''), (''message'', JStr (str_exn e))])"

definition detect :: "deps \<Rightarrow> request \<Rightarrow> response" where
  "detect d req = (case detect_try d req of Inl e \<Rightarrow> error_response e | Inr r \<Rightarrow> r)"

section \<open>Certificate provisioning\<close>

text \<open>
  What the start-up code can see and change outside the process: the files of
  the working directory, the system clock and the operating system's random
  generator. A file is the list of the chunks written to it since it was
  created or last truncated, over a type \<open>'b\<close> of byte strings (\<open>files\<close>).
  \<open>unwritable\<close> gives the paths that \<^verbatim>\<open>open(path, "wb")\<close> refuses, each
  with the error it raises there (a directory, a read-only file, a missing
  permission). \<open>write_errors\<close> gives the paths on whose open file
  \<^verbatim>\<open>f.write\<close> raises, each with its error (a full disk, an I/O error).
  \<open>clock\<close> is the sequence of instants that successive calls of
  \<^verbatim>\<open>datetime.utcnow()\<close> return, in microseconds since the epoch, and
  \<open>reads\<close> counts the calls made so far. \<open>entropy\<close> is the state of the
  random generator.
\<close>

record 'b world =
  files :: "string \<rightharpoonup> 'b list"
  unwritable :: "string \<rightharpoonup> exn"
  write_errors :: "string \<rightharpoonup> exn"
  clock :: "nat \<Rightarrow> int"
  reads :: nat
  entropy :: nat

definition path_exists :: "'b world \<Rightarrow> string \<Rightarrow> bool" where
  "path_exists w p = (files w p \<noteq> None)"

text \<open>
  \<^verbatim>\<open>open(path, "wb")\<close> creates the file or truncates it; \<^verbatim>\<open>f.write(data)\<close>
  appends \<open>data\<close> to the file that was opened, or raises and leaves the file
  as it was opened.
\<close>

definition open_wb :: "string \<Rightarrow> 'b world \<Rightarrow> exn + 'b world" where
  "open_wb p w =
     (case unwritable w p of
        Some e \<Rightarrow> Inl e
      | None \<Rightarrow> Inr (w\<lparr>files := (files w)(p \<mapsto> [])\<rparr>))"

definition file_write :: "string \<Rightarrow> 'b \<Rightarrow> 'b world \<Rightarrow> exn + 'b world" where
  "file_write p data w =
     (case write_errors w p of
        Some e \<Rightarrow> Inl e
      | None \<Rightarrow>
          Inr (w\<lparr>files := (files w)(p \<mapsto> (case files w p of
                                               None \<Rightarrow> [data]
                                             | Some old \<Rightarrow> old @ [data]))\<rparr>))"

definition utcnow :: "'b world \<Rightarrow> int \<times> 'b world" where
  "utcnow w = (clock w (reads w), w\<lparr>reads := Suc (reads w)\<rparr>)"

definition timedelta_days :: "int \<Rightarrow> int" where
  "timedelta_days n = n * 86400000000"

text \<open>
  An X.509 certificate keeps its two validity times in whole seconds: the
  microseconds of a datetime given to the builder are dropped when the
  certificate is encoded. \<open>whole_seconds\<close> is the second an instant falls in.
\<close>

definition whole_seconds :: "int \<Rightarrow> int" where
  "whole_seconds t = t div 1000000"

text \<open>The vocabulary of the cryptography package that the helper uses.\<close>

datatype encoding = PEM | DER

datatype private_format = TraditionalOpenSSL | PKCS8

datatype key_encryption = NoEncryption | BestAvailableEncryption string

datatype hash_algorithm = SHA1 | SHA256 | SHA512

datatype name_oid =
    COUNTRY_NAME
  | STATE_OR_PROVINCE_NAME
  | LOCALITY_NAME
  | ORGANIZATION_NAME
  | COMMON_NAME

datatype general_name = DNSName string

datatype extension = SubjectAlternativeName "general_name list"

text \<open>
  What a \<^verbatim>\<open>CertificateBuilder\<close> has been given when \<^verbatim>\<open>sign\<close> is called on
  it; an extension comes with its \<^verbatim>\<open>critical\<close> flag.
\<close>

record 'p x509_builder =
  subject_name :: "(name_oid \<times> string) list"
  issuer_name :: "(name_oid \<times> string) list"
  subject_public_key :: 'p
  serial_number :: nat
  not_valid_before :: int
  not_valid_after :: int
  extensions :: "(extension \<times> bool) list"

text \<open>
  The operations of the package, over its own types of private keys \<open>'k\<close>,
  public keys \<open>'p\<close> and certificates \<open>'c\<close>. Key generation and the random
  serial number draw from the random generator and return its next state. Key
  generation and the two serialisations may raise; \<open>sign\<close> stands for the
  whole builder chain ending in \<^verbatim>\<open>.sign(key, hash)\<close> and raises when the
  builder or the signature does.
\<close>

record ('k, 'p, 'c, 'b) crypto =
  generate_private_key :: "nat \<Rightarrow> nat \<Rightarrow> nat \<Rightarrow> exn + ('k \<times> nat)"
  private_bytes :: "'k \<Rightarrow> encoding \<Rightarrow> private_format \<Rightarrow> key_encryption \<Rightarrow> exn + 'b"
  public_key :: "'k \<Rightarrow> 'p"
  random_serial_number :: "nat \<Rightarrow> nat \<times> nat"
  sign :: "'p x509_builder \<Rightarrow> 'k \<Rightarrow> hash_algorithm \<Rightarrow> exn + 'c"
  public_bytes :: "'c \<Rightarrow> encoding \<Rightarrow> exn + 'b"

text \<open>
  Lines 47 to 62 of \<^verbatim>\<open>generate_self_signed_cert\<close>: the subject, and the
  builder as it stands before \<^verbatim>\<open>.sign\<close>. The arguments are evaluated in the
  order of the chain: the serial number, then one clock read for
  \<^verbatim>\<open>not_valid_before\<close>, then another for \<^verbatim>\<open>not_valid_after\<close>.
\<close>

definition certificate_builder ::
    "('k, 'p, 'c, 'b) crypto \<Rightarrow> 'k \<Rightarrow> 'b world \<Rightarrow> 'p x509_builder \<times> 'b world" where
  "certificate_builder cr key w =
     (let subject = [(COUNTRY_NAME, ''US''),
                     (STATE_OR_PROVINCE_NAME, ''California''),
                     (LOCALITY_NAME, ''San Francisco''),
                     (ORGANIZATION_NAME, ''My Company''),
                     (COMMON_NAME, ''localhost'')];
          issuer = subject;
          serial = random_serial_number cr (entropy w);
          w1 = w\<lparr>entropy := snd serial\<rparr>;
          first_read = utcnow w1;
          second_read = utcnow (snd first_read)
      in (\<lparr>subject_name = subject,
           issuer_name = issuer,
           subject_public_key = public_key cr key,
           serial_number = fst serial,
           not_valid_before = fst first_read,
           not_valid_after = fst second_read + timedelta_days 365,
           extensions = [(SubjectAlternativeName [DNSName ''localhost''], False)]\<rparr>,
          snd second_read))"

text \<open>
  The length in seconds of the validity period that the certificate signed
  from a builder carries.
\<close>

definition validity_seconds :: "'p x509_builder \<Rightarrow> int" where
  "validity_seconds b = whole_seconds (not_valid_after b) - whole_seconds (not_valid_before b)"

text \<open>
  \<^verbatim>\<open>generate_self_signed_cert(cert_file, key_file)\<close>, lines 37 to 66. The
  result is the exception that ended the call, if any, and the world as the call
  left it. In each \<^verbatim>\<open>with\<close> block the file is opened first, then the bytes
  are serialised, then written: an exception of the last two leaves the file
  that was just opened empty.
\<close>

definition generate_self_signed_cert ::
    "('k, 'p, 'c, 'b) crypto \<Rightarrow> string \<Rightarrow> string \<Rightarrow> 'b world \<Rightarrow> (exn + unit) \<times> 'b world" where
  "generate_self_signed_cert cr cert_file key_file w =
     (case generate_private_key cr 65537 2048 (entropy w) of
        Inl e \<Rightarrow> (Inl e, w)
      | Inr (key, g) \<Rightarrow>
          (case open_wb key_file (w\<lparr>entropy := g\<rparr>) of
             Inl e \<Rightarrow> (Inl e, w\<lparr>entropy := g\<rparr>)
           | Inr w1 \<Rightarrow>
          (case private_bytes cr key PEM TraditionalOpenSSL NoEncryption of
             Inl e \<Rightarrow> (Inl e, w1)
           | Inr key_pem \<Rightarrow>
          (case file_write key_file key_pem w1 of
             Inl e \<Rightarrow> (Inl e, w1)
           | Inr w2 \<Rightarrow>
               (let built = certificate_builder cr key w2
                in (case sign cr (fst built) key SHA256 of
                      Inl e \<Rightarrow> (Inl e, snd built)
                    | Inr cert \<Rightarrow>
                   (case open_wb cert_file (snd built) of
                      Inl e \<Rightarrow> (Inl e, snd built)
                    | Inr w3 \<Rightarrow>
                   (case public_bytes cr cert PEM of
                      Inl e \<Rightarrow> (Inl e, w3)
                    | Inr cert_pem \<Rightarrow>
                   (case file_write cert_file cert_pem w3 of
                      Inl e \<Rightarrow> (Inl e, w3)
                    | Inr w4 \<Rightarrow> (Inr (), w4))))))))))"

text \<open>
  Lines 69 and 70, run when the module is loaded: generate the pair unless both
  \<^verbatim>\<open>cert.pem\<close> and \<^verbatim>\<open>key.pem\<close> exist.
\<close>

definition ensure_certificate ::
    "('k, 'p, 'c, 'b) crypto \<Rightarrow> 'b world \<Rightarrow> (exn + unit) \<times> 'b world" where
  "ensure_certificate cr w =
     (if \<not> path_exists w ''cert.pem'' \<or> \<not> path_exists w ''key.pem''
      then generate_self_signed_cert cr ''cert.pem'' ''key.pem'' w
      else (Inr (), w))"

section \<open>The specification's reading of the handler\<close>

text \<open>
  The preprocessor as the specification lists its steps: decode the base64
  text, decode the bytes as an image, force three colour channels, resize to
  224 by 224 whatever the size was, take the float array, divide every value by
  255, and put one batch axis in front. An error of any step is the result.
\<close>

definition spec_preprocess :: "deps \<Rightarrow> json \<Rightarrow> exn + ndarray" where
  "spec_preprocess d text =
     (case b64decode d text of
        Inl e \<Rightarrow> Inl e
      | Inr bytes \<Rightarrow>
     (case Image_open d bytes of
        Inl e \<Rightarrow> Inl e
      | Inr decoded \<Rightarrow>
     (case convert d decoded ''RGB'' of
        Inl e \<Rightarrow> Inl e
      | Inr rgb \<Rightarrow>
     (case resize d rgb (224, 224) of
        Inl e \<Rightarrow> Inl e
      | Inr resized \<Rightarrow>
     (case img_to_array d resized of
        Inl e \<Rightarrow> Inl e
      | Inr floats \<Rightarrow>
          Inr \<lparr>shape = 1 # shape floats,
               elems = map (\<lambda>v. float_round d (v / 255)) (elems floats)\<rparr>)))))"

text \<open>
  What the handler relies on from Pillow, Keras and the float format:
  \<^verbatim>\<open>convert(m)\<close> returns an image of mode \<open>m\<close>; \<^verbatim>\<open>resize(size)\<close> returns
  an image of that size in the mode it was given; the array of an RGB image has
  shape (height, width, 3) and values from 0 to 255; rounding is monotone and
  leaves 0 and 1 as they are.
\<close>

definition library_contract :: "deps \<Rightarrow> bool" where
  "library_contract d \<longleftrightarrow>
     (\<forall>im m im'. convert d im m = Inr im' \<longrightarrow> mode im' = m) \<and>
     (\<forall>im sz im'. resize d im sz = Inr im' \<longrightarrow> dims im' = sz \<and> mode im' = mode im) \<and>
     (\<forall>im arr. img_to_array d im = Inr arr \<longrightarrow> mode im = ''RGB'' \<longrightarrow>
        shape arr = [snd (dims im), fst (dims im), 3] \<and>
        (\<forall>v \<in> set (elems arr). 0 \<le> v \<and> v \<le> 255)) \<and>
     (\<forall>x y. x \<le> y \<longrightarrow> float_round d x \<le> float_round d y) \<and>
     float_round d 0 = 0 \<and> float_round d 1 = 1"

text \<open>
  The places where the processing chain of a request can raise, one rule for
  each: the body is not JSON, the subscript fails, the text is not base64, the
  bytes are not an image, Pillow or Keras fail on the image, the model fails,
  the model's output cannot be read.
\<close>

inductive raises :: "deps \<Rightarrow> request \<Rightarrow> exn \<Rightarrow> bool" for d :: deps and req :: request where
  malformed_body: "get_json d req = Inl e \<Longrightarrow> raises d req e"
| missing_field:
    "get_json d req = Inr data \<Longrightarrow> subscript data ''image'' = Inl e \<Longrightarrow> raises d req e"
| bad_base64:
    "get_json d req = Inr data \<Longrightarrow> subscript data ''image'' = Inr s \<Longrightarrow>
     b64decode d s = Inl e \<Longrightarrow> raises d req e"
| bad_image_bytes:
    "get_json d req = Inr data \<Longrightarrow> subscript data ''image'' = Inr s \<Longrightarrow>
     b64decode d s = Inr bs \<Longrightarrow> Image_open d bs = Inl e \<Longrightarrow> raises d req e"
| bad_image:
    "get_json d req = Inr data \<Longrightarrow> subscript data ''image'' = Inr s \<Longrightarrow>
     b64decode d s = Inr bs \<Longrightarrow> Image_open d bs = Inr im \<Longrightarrow>
     preprocess d s = Inl e \<Longrightarrow> raises d req e"
| model_error:
    "get_json d req = Inr data \<Longrightarrow> subscript data ''image'' = Inr s \<Longrightarrow>
     preprocess d s = Inr t \<Longrightarrow> predict d t = Inl e \<Longrightarrow> raises d req e"
| bad_output:
    "get_json d req = Inr data \<Longrightarrow> subscript data ''image'' = Inr s \<Longrightarrow>
     preprocess d s = Inr t \<Longrightarrow> predict d t = Inr preds \<Longrightarrow>
     bind_exn (np_row0 preds) (\<lambda>row.
       bind_exn (np_argmax row) (\<lambda>i.
       bind_exn (np_max row) (\<lambda>c. list_getitem class_labels i))) = Inl e \<Longrightarrow>
     raises d req e"

code_pred raises .

section \<open>Concrete instances\<close>

text \<open>
  A small stand-in for the libraries, on which the definitions can be run. The
  body of a JSON request is taken as the text under \<^verbatim>\<open>image\<close>, and the body
  \<^verbatim>\<open>{}\<close> as the empty object. The decoder passes a string through. An image
  file is one row of grey samples, one per byte, and the empty file is no image.
  Resizing paints the whole target with the first sample. The model answers
  0.25 and 0.75 whatever it is shown.
\<close>

definition example_deps :: deps where
  "example_deps =
     \<lparr>get_json = (\<lambda>r. if content_type r = ''application/json''
                       then (if body r = ''{}'' then Inr (JObj [])
                             else Inr (JObj [(''image'', JStr (body r))]))
                       else Inl (Raised ''UnsupportedMediaType'' ''415 Unsupported Media Type'')),
      b64decode = (\<lambda>j. case j of
                          JStr s \<Rightarrow> Inr s
                        | _ \<Rightarrow> Inl (TypeError ''argument should be a bytes-like object or ASCII string'')),
      Image_open = (\<lambda>bs. if bs = []
                          then Inl (Raised ''UnidentifiedImageError'' ''cannot identify image file'')
                          else Inr \<lparr>mode = ''L'', dims = (length bs, 1), pixels = map of_char bs\<rparr>),
      convert = (\<lambda>im m. if m = mode im then Inr im
                         else if m = ''RGB'' \<and> mode im = ''L''
                         then Inr \<lparr>mode = ''RGB'', dims = dims im,
                                  pixels = concat (map (\<lambda>p. [p, p, p]) (pixels im))\<rparr>
                         else Inl (ValueError ''conversion not supported'')),
      resize = (\<lambda>im sz. Inr \<lparr>mode = mode im, dims = sz,
                               pixels = replicate
                                 (fst sz * snd sz * (if mode im = ''RGB'' then 3 else 1))
                                 (case pixels im of [] \<Rightarrow> 0 | p # _ \<Rightarrow> p)\<rparr>),
      img_to_array = (\<lambda>im. Inr \<lparr>shape = [snd (dims im), fst (dims im),
                                         if mode im = ''RGB'' then 3 else 1],
                                 elems = map (\<lambda>p. real (p mod 256)) (pixels im)\<rparr>),
      float_round = (\<lambda>x. x),
      predict = (\<lambda>t. Inr [[1/4, 3/4]])\<rparr>"

text \<open>The same libraries around a model that cannot decide.\<close>

definition tied_deps :: deps where
  "tied_deps = example_deps\<lparr>predict := (\<lambda>t. Inr [[1/2, 1/2]])\<rparr>"

definition example_request :: request where
  "example_request = \<lparr>content_type = ''application/json'', body = ''QUJD''\<rparr>"

definition empty_object_request :: request where
  "empty_object_request = \<lparr>content_type = ''application/json'', body = ''{}''\<rparr>"

definition empty_image_request :: request where
  "empty_image_request = \<lparr>content_type = ''application/json'', body = []\<rparr>"

definition example_tensor :: ndarray where
  "example_tensor = \<lparr>shape = [1, 224, 224, 3], elems = replicate 150528 (81 / 255)\<rparr>"

text \<open>
  A stand-in for the cryptography package in which a key is a number, a
  certificate is what was signed together with the key and the hash, and a byte
  string says what it serialises. The clock of \<open>example_world\<close> advances by
  one microsecond from a read to the next; its directory is empty.
\<close>

datatype example_bytes =
    PrivateKeyBytes nat encoding private_format key_encryption
  | CertificateBytes "nat x509_builder \<times> nat \<times> hash_algorithm" encoding
  | OtherBytes string

definition example_crypto ::
    "(nat, nat, nat x509_builder \<times> nat \<times> hash_algorithm, example_bytes) crypto" where
  "example_crypto =
     \<lparr>generate_private_key = (\<lambda>e bits g. Inr (g, Suc g)),
      private_bytes = (\<lambda>k enc fmt alg. Inr (PrivateKeyBytes k enc fmt alg)),
      public_key = (\<lambda>k. k),
      random_serial_number = (\<lambda>g. (g, Suc g)),
      sign = (\<lambda>b k h. Inr (b, k, h)),
      public_bytes = (\<lambda>c enc. Inr (CertificateBytes c enc))\<rparr>"

definition failing_crypto ::
    "(nat, nat, nat x509_builder \<times> nat \<times> hash_algorithm, example_bytes) crypto" where
  "failing_crypto = example_crypto\<lparr>sign := (\<lambda>b k h. Inl (ValueError ''signing failed''))\<rparr>"

definition example_world :: "example_bytes world" where
  "example_world =
     \<lparr>files = Map.empty,
      unwritable = Map.empty,
      write_errors = Map.empty,
      clock = (\<lambda>n. 1700000000000000 + int n),
      reads = 0,
      entropy = 7\<rparr>"

text \<open>
  The certificate that \<open>example_crypto\<close> issues in \<open>example_world\<close>, and
  more worlds: one whose directory holds both files, one that holds only an old
  certificate, one whose old certificate cannot be opened for writing, one on
  whose disk nothing can be written into \<^verbatim>\<open>cert.pem\<close>, and one whose clock
  passes from one second to the next between two reads: the first read returns
  2023-11-14 22:13:20.999999, the second 22:13:21.000000.
\<close>

definition example_builder :: "nat x509_builder" where
  "example_builder =
     \<lparr>subject_name = [(COUNTRY_NAME, ''US''),
                      (STATE_OR_PROVINCE_NAME, ''California''),
                      (LOCALITY_NAME, ''San Francisco''),
                      (ORGANIZATION_NAME, ''My Company''),
                      (COMMON_NAME, ''localhost'')],
      issuer_name = [(COUNTRY_NAME, ''US''),
                     (STATE_OR_PROVINCE_NAME, ''California''),
                     (LOCALITY_NAME, ''San Francisco''),
                     (ORGANIZATION_NAME, ''My Company''),
                     (COMMON_NAME, ''localhost'')],
      subject_public_key = 7,
      serial_number = 8,
      not_valid_before = 1700000000000000,
      not_valid_after = 1700000000000001 + timedelta_days 365,
      extensions = [(SubjectAlternativeName [DNSName ''localhost''], False)]\<rparr>"

definition provisioned_world :: "example_bytes world" where
  "provisioned_world =
     example_world\<lparr>files := [''cert.pem'' \<mapsto> [OtherBytes ''old certificate''],
                             ''key.pem'' \<mapsto> [OtherBytes ''old key'']]\<rparr>"

definition half_provisioned_world :: "example_bytes world" where
  "half_provisioned_world =
     example_world\<lparr>files := [''cert.pem'' \<mapsto> [OtherBytes ''old certificate'']]\<rparr>"

definition read_only_world :: "example_bytes world" where
  "read_only_world =
     half_provisioned_world\<lparr>unwritable :=
       [''cert.pem'' \<mapsto> Raised ''PermissionError'' ''[Errno 13] Permission denied'']\<rparr>"

definition full_disk_world :: "example_bytes world" where
  "full_disk_world =
     example_world\<lparr>write_errors :=
       [''cert.pem'' \<mapsto> Raised ''OSError'' ''[Errno 28] No space left on device'']\<rparr>"

definition straddling_world :: "example_bytes world" where
  "straddling_world = example_world\<lparr>clock := (\<lambda>n. 1700000000999999 + int n)\<rparr>"

definition straddling_builder :: "nat x509_builder" where
  "straddling_builder =
     example_builder\<lparr>not_valid_before := 1700000000999999,
                      not_valid_after := 1700000001000000 + timedelta_days 365\<rparr>"

section \<open>Facts about the building blocks\<close>

text \<open>Sequencing of computations that may raise.\<close>

lemma bind_exn_Inl: "bind_exn (Inl e) f = Inl e"
  by (simp add: bind_exn_def)

lemma bind_exn_Inr: "bind_exn (Inr x) f = f x"
  by (simp add: bind_exn_def)

lemma bind_exn_eq_Inr:
  "bind_exn m f = Inr y \<longleftrightarrow> (\<exists>x. m = Inr x \<and> f x = Inr y)"
  by (cases m) (simp_all add: bind_exn_def)

text \<open>
  The handler's lines 86 to 92 compute what the specification's list of steps
  computes, on every input and whatever the libraries answer.
\<close>

lemma preprocess_refines: "preprocess d s = spec_preprocess d s"
  unfolding preprocess_def spec_preprocess_def bind_exn_def np_expand_dims_def np_true_divide_def
  by (simp split: sum.splits)

text \<open>
  The scan behind \<open>np_argmax\<close>, with the part of the row already seen in
  \<open>ys\<close>: if \<open>best\<close> is the largest value of \<open>ys\<close> and \<open>best_i\<close> the first
  index that holds it, the scan ends at the first index of the largest value of
  the whole row, and the fold behind \<open>np_max\<close> ends at that value.
\<close>

lemma argmax_scan_first_max:
  assumes "length ys = i" "best_i < i" "ys ! best_i = best"
    "\<forall>j<i. ys ! j \<le> best" "\<forall>j<best_i. ys ! j < best"
  shows "let k = argmax_scan xs i best best_i in
           k < length (ys @ xs) \<and> (\<forall>j<length (ys @ xs). (ys @ xs) ! j \<le> (ys @ xs) ! k) \<and>
           (\<forall>j<k. (ys @ xs) ! j < (ys @ xs) ! k) \<and> foldl max best xs = (ys @ xs) ! k"
  using assms
proof (induction xs arbitrary: ys i best best_i)
  case Nil
  then show ?case by (simp add: Let_def)
next
  case (Cons x xs)
  show ?case
  proof (cases "best < x")
    case True
    have "let k = argmax_scan xs (Suc i) x i in
           k < length ((ys @ [x]) @ xs) \<and> (\<forall>j<length ((ys @ [x]) @ xs). ((ys @ [x]) @ xs) ! j \<le> ((ys @ [x]) @ xs) ! k) \<and>
           (\<forall>j<k. ((ys @ [x]) @ xs) ! j < ((ys @ [x]) @ xs) ! k) \<and> foldl max x xs = ((ys @ [x]) @ xs) ! k"
    proof (rule Cons.IH)
      show "length (ys @ [x]) = Suc i" using Cons.prems by simp
      show "i < Suc i" by simp
      show "(ys @ [x]) ! i = x" using Cons.prems(1) by auto
      show "\<forall>j<Suc i. (ys @ [x]) ! j \<le> x"
        using Cons.prems True by (auto simp: nth_append less_Suc_eq)
      show "\<forall>j<i. (ys @ [x]) ! j < x"
        using Cons.prems True by (auto simp: nth_append)
    qed
    moreover have "max best x = x" using True by simp
    ultimately show ?thesis using True by (simp add: Let_def)
  next
    case False
    have "let k = argmax_scan xs (Suc i) best best_i in
           k < length ((ys @ [x]) @ xs) \<and> (\<forall>j<length ((ys @ [x]) @ xs). ((ys @ [x]) @ xs) ! j \<le> ((ys @ [x]) @ xs) ! k) \<and>
           (\<forall>j<k. ((ys @ [x]) @ xs) ! j < ((ys @ [x]) @ xs) ! k) \<and> foldl max best xs = ((ys @ [x]) @ xs) ! k"
    proof (rule Cons.IH)
      show "length (ys @ [x]) = Suc i" using Cons.prems by simp
      show "best_i < Suc i" using Cons.prems by simp
      show "(ys @ [x]) ! best_i = best" using Cons.prems by (simp add: nth_append)
      show "\<forall>j<Suc i. (ys @ [x]) ! j \<le> best"
        using Cons.prems False by (auto simp: nth_append less_Suc_eq)
      show "\<forall>j<best_i. (ys @ [x]) ! j < best"
        using Cons.prems by (auto simp: nth_append)
    qed
    moreover have "max best x = best" using False by simp
    ultimately show ?thesis using False by (simp add: Let_def)
  qed
qed

lemma np_argmax_first_max:
  assumes "row \<noteq> []"
  shows "\<exists>i. np_argmax row = Inr i \<and> i < length row \<and>
             (\<forall>j<length row. row ! j \<le> row ! i) \<and> (\<forall>j<i. row ! j < row ! i) \<and>
             np_max row = Inr (row ! i)"
proof -
  from assms obtain x xs where row: "row = x # xs" by (cases row) auto
  have "let k = argmax_scan xs 1 x 0 in
          k < length ([x] @ xs) \<and> (\<forall>j<length ([x] @ xs). ([x] @ xs) ! j \<le> ([x] @ xs) ! k) \<and>
          (\<forall>j<k. ([x] @ xs) ! j < ([x] @ xs) ! k) \<and> foldl max x xs = ([x] @ xs) ! k"
    by (rule argmax_scan_first_max) simp_all
  then show ?thesis
    by (simp add: row np_argmax_def np_max_def Let_def)
qed

text \<open>What is left of the \<^verbatim>\<open>try\<close> block once the model has answered.\<close>

lemma detect_try_after_predict:
  assumes "get_json d req = Inr data" and "subscript data ''image'' = Inr s"
    and "preprocess d s = Inr t" and "predict d t = Inr (row # rest)"
    and "np_argmax row = Inr i" and "np_max row = Inr c"
  shows "detect_try d req =
           bind_exn (list_getitem class_labels i) (\<lambda>label.
             Inr (jsonify (JObj [(''status'', JStr ''success''),
                                 (''prediction'', JStr label),
                                 (''confidence'', JFloat c)])))"
  using assms by (simp add: detect_try_def bind_exn_Inr np_row0_def)

text \<open>
  The rules of \<open>raises\<close> cover the \<^verbatim>\<open>try\<close> block: an exception comes out
  of the block exactly when one of the rules applies.
\<close>

lemma raises_iff: "raises d req e \<longleftrightarrow> detect_try d req = Inl e"
proof
  assume "raises d req e"
  then show "detect_try d req = Inl e"
  proof cases
    case malformed_body
    then show ?thesis by (simp add: detect_try_def bind_exn_def)
  next
    case (missing_field data)
    then show ?thesis by (simp add: detect_try_def bind_exn_def)
  next
    case (bad_base64 data s)
    then show ?thesis by (simp add: detect_try_def preprocess_def bind_exn_def)
  next
    case (bad_image_bytes data s bs)
    then show ?thesis by (simp add: detect_try_def preprocess_def bind_exn_def)
  next
    case (bad_image data s bs im)
    then show ?thesis by (simp add: detect_try_def bind_exn_def)
  next
    case (model_error data s t)
    then show ?thesis by (simp add: detect_try_def bind_exn_def)
  next
    case (bad_output data s t preds)
    then show ?thesis
      by (auto simp: detect_try_def bind_exn_def split: sum.splits)
  qed
next
  assume failed: "detect_try d req = Inl e"
  show "raises d req e"
  proof (cases "get_json d req")
    case (Inl e1)
    with failed show ?thesis
      by (auto simp: detect_try_def bind_exn_def intro: raises.malformed_body)
  next
    case data: (Inr data)
    show ?thesis
    proof (cases "subscript data ''image''")
      case (Inl e1)
      with failed data show ?thesis
        by (auto simp: detect_try_def bind_exn_def intro: raises.missing_field)
    next
      case s: (Inr s)
      show ?thesis
      proof (cases "preprocess d s")
        case pre: (Inl e1)
        with failed data s have e1: "e1 = e"
          by (simp add: detect_try_def bind_exn_def)
        show ?thesis
        proof (cases "b64decode d s")
          case (Inl e2)
          with pre e1 have "b64decode d s = Inl e"
            by (simp add: preprocess_def bind_exn_def)
          with data s show ?thesis by (rule raises.bad_base64)
        next
          case bs: (Inr bs)
          show ?thesis
          proof (cases "Image_open d bs")
            case (Inl e2)
            with pre e1 bs have "Image_open d bs = Inl e"
              by (simp add: preprocess_def bind_exn_def)
            with data s bs show ?thesis by (rule raises.bad_image_bytes)
          next
            case (Inr im)
            from data s bs Inr pre [unfolded e1] show ?thesis by (rule raises.bad_image)
          qed
        qed
      next
        case t: (Inr t)
        show ?thesis
        proof (cases "predict d t")
          case (Inl e1)
          with failed data s t have "predict d t = Inl e"
            by (simp add: detect_try_def bind_exn_def)
          with data s t show ?thesis by (rule raises.model_error)
        next
          case (Inr preds)
          with failed data s t
          have "bind_exn (np_row0 preds) (\<lambda>row.
                  bind_exn (np_argmax row) (\<lambda>i.
                  bind_exn (np_max row) (\<lambda>c. list_getitem class_labels i))) = Inl e"
            by (auto simp: detect_try_def bind_exn_def split: sum.splits)
          with data s t Inr show ?thesis by (rule raises.bad_output)
        qed
      qed
    qed
  qed
qed

text \<open>
  The builder that is signed: its names, its extension and its validity
  window, read off the clock at two successive instants.
\<close>

lemma certificate_builder_validity:
  "not_valid_before (fst (certificate_builder cr key w)) = clock w (reads w) \<and>
   not_valid_after (fst (certificate_builder cr key w)) =
     clock w (Suc (reads w)) + timedelta_days 365"
  by (simp add: certificate_builder_def utcnow_def Let_def)

lemma certificate_builder_names:
  "subject_name (fst (certificate_builder cr key w)) =
     [(COUNTRY_NAME, ''US''), (STATE_OR_PROVINCE_NAME, ''California''),
      (LOCALITY_NAME, ''San Francisco''), (ORGANIZATION_NAME, ''My Company''),
      (COMMON_NAME, ''localhost'')] \<and>
   issuer_name (fst (certificate_builder cr key w)) =
     subject_name (fst (certificate_builder cr key w)) \<and>
   subject_public_key (fst (certificate_builder cr key w)) = public_key cr key \<and>
   extensions (fst (certificate_builder cr key w)) =
     [(SubjectAlternativeName [DNSName ''localhost''], False)]"
  by (simp add: certificate_builder_def Let_def)

text \<open>365 days are a whole number of seconds.\<close>

lemma whole_seconds_plus_year:
  "whole_seconds (t + timedelta_days 365) = whole_seconds t + 31536000"
proof -
  have "t + timedelta_days 365 = t + 31536000 * 1000000"
    by (simp add: timedelta_days_def)
  then show ?thesis
    by (simp add: whole_seconds_def)
qed

lemma certificate_builder_seconds:
  "validity_seconds (fst (certificate_builder cr key w)) =
     31536000 + (whole_seconds (clock w (Suc (reads w))) - whole_seconds (clock w (reads w)))"
  using certificate_builder_validity [of cr key w]
  by (simp add: validity_seconds_def whole_seconds_plus_year)

text \<open>
  The three ways a call of \<open>generate_self_signed_cert\<close> ends once the key
  file has been written: it completes, it fails before the certificate file is
  opened, or it fails after.
\<close>

lemma generate_completes:
  assumes "generate_private_key cr 65537 2048 (entropy w) = Inr (key, g)"
    and "unwritable w key_file = None"
    and "private_bytes cr key PEM TraditionalOpenSSL NoEncryption = Inr key_pem"
    and "write_errors w key_file = None"
    and "sign cr (fst (certificate_builder cr key (w\<lparr>entropy := g\<rparr>))) key SHA256 = Inr cert"
    and "unwritable w cert_file = None"
    and "public_bytes cr cert PEM = Inr cert_pem"
    and "write_errors w cert_file = None"
  shows "fst (generate_self_signed_cert cr cert_file key_file w) = Inr () \<and>
         files (snd (generate_self_signed_cert cr cert_file key_file w)) =
           (files w)(key_file \<mapsto> [key_pem], cert_file \<mapsto> [cert_pem])"
  using assms
  by (simp add: generate_self_signed_cert_def open_wb_def file_write_def
      certificate_builder_def utcnow_def Let_def)

lemma generate_fails_before_open:
  assumes "generate_private_key cr 65537 2048 (entropy w) = Inr (key, g)"
    and "unwritable w key_file = None"
    and "private_bytes cr key PEM TraditionalOpenSSL NoEncryption = Inr key_pem"
    and "write_errors w key_file = None"
    and "sign cr (fst (certificate_builder cr key (w\<lparr>entropy := g\<rparr>))) key SHA256 = Inl e \<or>
         (\<exists>cert. sign cr (fst (certificate_builder cr key (w\<lparr>entropy := g\<rparr>))) key SHA256 = Inr cert \<and>
                 unwritable w cert_file = Some e)"
  shows "fst (generate_self_signed_cert cr cert_file key_file w) = Inl e \<and>
         files (snd (generate_self_signed_cert cr cert_file key_file w)) =
           (files w)(key_file \<mapsto> [key_pem])"
  using assms(5)
proof
  assume "sign cr (fst (certificate_builder cr key (w\<lparr>entropy := g\<rparr>))) key SHA256 = Inl e"
  with assms(1-4) show ?thesis
    by (simp add: generate_self_signed_cert_def open_wb_def file_write_def
        certificate_builder_def utcnow_def Let_def)
next
  assume "\<exists>cert. sign cr (fst (certificate_builder cr key (w\<lparr>entropy := g\<rparr>))) key SHA256 = Inr cert \<and>
                 unwritable w cert_file = Some e"
  then obtain cert where
      "sign cr (fst (certificate_builder cr key (w\<lparr>entropy := g\<rparr>))) key SHA256 = Inr cert"
      "unwritable w cert_file = Some e"
    by blast
  with assms(1-4) show ?thesis
    by (simp add: generate_self_signed_cert_def open_wb_def file_write_def
        certificate_builder_def utcnow_def Let_def)
qed

lemma generate_fails_after_open:
  assumes "generate_private_key cr 65537 2048 (entropy w) = Inr (key, g)"
    and "unwritable w key_file = None"
    and "private_bytes cr key PEM TraditionalOpenSSL NoEncryption = Inr key_pem"
    and "write_errors w key_file = None"
    and "sign cr (fst (certificate_builder cr key (w\<lparr>entropy := g\<rparr>))) key SHA256 = Inr cert"
    and "unwritable w cert_file = None"
    and "public_bytes cr cert PEM = Inl e \<or>
         (\<exists>cert_pem. public_bytes cr cert PEM = Inr cert_pem \<and> write_errors w cert_file = Some e)"
  shows "fst (generate_self_signed_cert cr cert_file key_file w) = Inl e \<and>
         files (snd (generate_self_signed_cert cr cert_file key_file w)) =
           (files w)(key_file \<mapsto> [key_pem], cert_file \<mapsto> [])"
  using assms(7)
proof
  assume "public_bytes cr cert PEM = Inl e"
  with assms(1-6) show ?thesis
    by (simp add: generate_self_signed_cert_def open_wb_def file_write_def
        certificate_builder_def utcnow_def Let_def)
next
  assume "\<exists>cert_pem. public_bytes cr cert PEM = Inr cert_pem \<and> write_errors w cert_file = Some e"
  then obtain cert_pem where
      "public_bytes cr cert PEM = Inr cert_pem" "write_errors w cert_file = Some e"
    by blast
  with assms(1-6) show ?thesis
    by (simp add: generate_self_signed_cert_def open_wb_def file_write_def
        certificate_builder_def utcnow_def Let_def)
qed

text \<open>The stand-in for the cryptography package, evaluated.\<close>

lemma example_keygen:
  "generate_private_key example_crypto 65537 2048 (entropy example_world) = Inr (7, 8)"
  "generate_private_key failing_crypto 65537 2048 (entropy example_world) = Inr (7, 8)"
  "generate_private_key example_crypto 65537 2048 (entropy half_provisioned_world) = Inr (7, 8)"
  "generate_private_key example_crypto 65537 2048 (entropy straddling_world) = Inr (7, 8)"
  "generate_private_key example_crypto 65537 2048 (entropy full_disk_world) = Inr (7, 8)"
  by (simp_all add: example_crypto_def failing_crypto_def example_world_def
      half_provisioned_world_def straddling_world_def full_disk_world_def)

lemma example_builder_eq:
  "example_builder = fst (certificate_builder failing_crypto 7 (example_world\<lparr>entropy := 8\<rparr>))"
  "example_builder =
     fst (certificate_builder example_crypto 7 (half_provisioned_world\<lparr>entropy := 8\<rparr>))"
  "example_builder = fst (certificate_builder example_crypto 7 (full_disk_world\<lparr>entropy := 8\<rparr>))"
  "straddling_builder =
     fst (certificate_builder example_crypto 7 (straddling_world\<lparr>entropy := 8\<rparr>))"
  by (simp_all add: example_builder_def straddling_builder_def certificate_builder_def
      utcnow_def Let_def example_crypto_def failing_crypto_def example_world_def
      half_provisioned_world_def full_disk_world_def straddling_world_def)

lemma example_sign:
  "sign example_crypto b k h = Inr (b, k, h)"
  "sign failing_crypto b k h = Inl (ValueError ''signing failed'')"
  by (simp_all add: example_crypto_def failing_crypto_def)

lemma example_serialise:
  "private_bytes example_crypto k enc fmt alg = Inr (PrivateKeyBytes k enc fmt alg)"
  "private_bytes failing_crypto k enc fmt alg = Inr (PrivateKeyBytes k enc fmt alg)"
  "public_bytes example_crypto c enc = Inr (CertificateBytes c enc)"
  by (simp_all add: example_crypto_def failing_crypto_def)

lemma example_writable:
  "unwritable example_world p = None"
  "write_errors example_world p = None"
  "unwritable half_provisioned_world p = None"
  "write_errors half_provisioned_world p = None"
  "unwritable straddling_world p = None"
  "write_errors straddling_world p = None"
  "unwritable full_disk_world p = None"
  "write_errors full_disk_world ''key.pem'' = None"
  "write_errors full_disk_world ''cert.pem'' =
     Some (Raised ''OSError'' ''[Errno 28] No space left on device'')"
  by (simp_all add: example_world_def half_provisioned_world_def straddling_world_def
      full_disk_world_def)

lemma read_only_run:
  "fst (ensure_certificate example_crypto read_only_world) =
     Inl (Raised ''PermissionError'' ''[Errno 13] Permission denied'')"
  "files (snd (ensure_certificate example_crypto read_only_world)) =
     [''cert.pem'' \<mapsto> [OtherBytes ''old certificate''],
      ''key.pem'' \<mapsto> [PrivateKeyBytes 7 PEM TraditionalOpenSSL NoEncryption]]"
  by (simp_all add: ensure_certificate_def path_exists_def generate_self_signed_cert_def
      open_wb_def file_write_def Let_def example_crypto_def read_only_world_def
      half_provisioned_world_def example_world_def certificate_builder_def utcnow_def)

lemma full_disk_run:
  "fst (ensure_certificate example_crypto full_disk_world) =
     Inl (Raised ''OSError'' ''[Errno 28] No space left on device'')"
  "files (snd (ensure_certificate example_crypto full_disk_world)) =
     [''key.pem'' \<mapsto> [PrivateKeyBytes 7 PEM TraditionalOpenSSL NoEncryption],
      ''cert.pem'' \<mapsto> []]"
  by (simp_all add: ensure_certificate_def path_exists_def generate_self_signed_cert_def
      open_wb_def file_write_def Let_def example_crypto_def full_disk_world_def
      example_world_def certificate_builder_def utcnow_def)

text \<open>The concrete instances, evaluated.\<close>

lemma example_get_json:
  "get_json example_deps example_request = Inr (JObj [(''image'', JStr ''QUJD'')])"
  "get_json tied_deps example_request = Inr (JObj [(''image'', JStr ''QUJD'')])"
  "get_json example_deps empty_object_request = Inr (JObj [])"
  "get_json example_deps empty_image_request = Inr (JObj [(''image'', JStr [])])"
  by (simp_all add: example_deps_def tied_deps_def example_request_def
      empty_object_request_def empty_image_request_def)

lemma example_predict:
  "predict example_deps t = Inr [[1/4, 3/4]]"
  "predict tied_deps t = Inr [[1/2, 1/2]]"
  by (simp_all add: example_deps_def tied_deps_def)

lemma example_steps:
  "b64decode example_deps (JStr ''QUJD'') = Inr ''QUJD''"
  "Image_open example_deps ''QUJD'' = Inr \<lparr>mode = ''L'', dims = (4, 1), pixels = [81, 85, 74, 68]\<rparr>"
  "convert example_deps \<lparr>mode = ''L'', dims = (4, 1), pixels = [81, 85, 74, 68]\<rparr> ''RGB'' =
     Inr \<lparr>mode = ''RGB'', dims = (4, 1),
          pixels = [81, 81, 81, 85, 85, 85, 74, 74, 74, 68, 68, 68]\<rparr>"
  "resize example_deps \<lparr>mode = ''RGB'', dims = (4, 1),
          pixels = [81, 81, 81, 85, 85, 85, 74, 74, 74, 68, 68, 68]\<rparr> (224, 224) =
     Inr \<lparr>mode = ''RGB'', dims = (224, 224), pixels = replicate 150528 81\<rparr>"
  "img_to_array example_deps \<lparr>mode = ''RGB'', dims = (224, 224), pixels = replicate 150528 81\<rparr> =
     Inr \<lparr>shape = [224, 224, 3], elems = replicate 150528 81\<rparr>"
  by (simp_all add: example_deps_def)

lemma example_preprocess:
  "preprocess example_deps (JStr ''QUJD'') = Inr example_tensor"
  by (simp add: preprocess_def example_deps_def example_tensor_def bind_exn_def
      np_expand_dims_def np_true_divide_def)

lemma tied_preprocess:
  "preprocess tied_deps (JStr ''QUJD'') = Inr example_tensor"
  by (simp add: preprocess_def tied_deps_def example_deps_def example_tensor_def bind_exn_def
      np_expand_dims_def np_true_divide_def)

lemma example_library_contract: "library_contract example_deps"
  by (auto simp: library_contract_def example_deps_def split: if_splits)

section \<open>The handler's answers\<close>

text \<open>
  Claim C1. Take a request whose body is a JSON object with a field
  \<^verbatim>\<open>image\<close>, whose value the preprocessing chain accepts (valid base64 of
  bytes that Pillow decodes), and let the model answer with a row of as many
  probabilities as there are labels, each between 0 and 1. Then \<open>detect\<close>
  answers with status 200 and the body
  \<^verbatim>\<open>{"status": "success", "prediction": label, "confidence": c}\<close>, where the
  label is \<^verbatim>\<open>mask\<close> or \<^verbatim>\<open>no_mask\<close> and \<open>c\<close> lies between 0 and 1.
\<close>

theorem detect_success:
  assumes "get_json d req = Inr (JObj kvs)" and "map_of kvs ''image'' = Some s"
    and "preprocess d s = Inr t" and "predict d t = Inr (row # rest)"
    and "length row = length class_labels" and "\<forall>p \<in> set row. 0 \<le> p \<and> p \<le> 1"
  shows "\<exists>label c.
           detect d req = jsonify (JObj [(''status'', JStr ''success''),
                                         (''prediction'', JStr label),
                                         (''confidence'', JFloat c)]) \<and>
           status_code (detect d req) = 200 \<and>
           (label = ''mask'' \<or> label = ''no_mask'') \<and> 0 \<le> c \<and> c \<le> 1"
proof -
  have nonempty: "row \<noteq> []"
    using assms(5) by (auto simp: class_labels_def)
  then obtain i where i: "np_argmax row = Inr i" "i < length row" "np_max row = Inr (row ! i)"
    using np_argmax_first_max by blast
  have sub: "subscript (JObj kvs) ''image'' = Inr s"
    using assms(2) by simp
  have label: "list_getitem class_labels i = Inr (class_labels ! i)"
    using i(2) assms(5) by (simp add: list_getitem_def)
  have "detect_try d req =
          Inr (jsonify (JObj [(''status'', JStr ''success''),
                              (''prediction'', JStr (class_labels ! i)),
                              (''confidence'', JFloat (row ! i))]))"
    using detect_try_after_predict [OF assms(1) sub assms(3) assms(4) i(1) i(3)] label
    by (simp add: bind_exn_Inr)
  then have resp: "detect d req =
          jsonify (JObj [(''status'', JStr ''success''),
                         (''prediction'', JStr (class_labels ! i)),
                         (''confidence'', JFloat (row ! i))])"
    by (simp add: detect_def)
  have "i < 2" using i(2) assms(5) by (simp add: class_labels_def)
  then have "i = 0 \<or> i = 1" by auto
  then have names: "class_labels ! i = ''mask'' \<or> class_labels ! i = ''no_mask''"
    by (auto simp: class_labels_def)
  have "row ! i \<in> set row" using i(2) by simp
  then have range: "0 \<le> row ! i \<and> row ! i \<le> 1" using assms(6) by blast
  show ?thesis
    using resp names range by (simp add: jsonify_def)
qed

theorem detect_success_witness:
  "get_json example_deps example_request = Inr (JObj [(''image'', JStr ''QUJD'')]) \<and>
   preprocess example_deps (JStr ''QUJD'') = Inr example_tensor \<and>
   predict example_deps example_tensor = Inr [[1/4, 3/4]] \<and>
   (\<exists>label c.
      detect example_deps example_request =
        jsonify (JObj [(''status'', JStr ''success''), (''prediction'', JStr label),
                       (''confidence'', JFloat c)]) \<and>
      status_code (detect example_deps example_request) = 200 \<and>
      (label = ''mask'' \<or> label = ''no_mask'') \<and> 0 \<le> c \<and> c \<le> 1)"
proof -
  have field: "map_of [(''image'', JStr ''QUJD'')] ''image'' = Some (JStr ''QUJD'')"
    by simp
  have len: "length [1/4, 3/4 :: real] = length class_labels"
    by (simp add: class_labels_def)
  have probs: "\<forall>p \<in> set [1/4, 3/4 :: real]. 0 \<le> p \<and> p \<le> 1"
    by simp
  show ?thesis
    using detect_success [OF example_get_json(1) field example_preprocess example_predict(1) len probs]
      example_get_json(1) example_preprocess example_predict(1)
    by simp
qed

text \<open>
  Claim C2. \<open>detect\<close> is a total function into responses: no exception
  leaves it. Whenever a step of the chain raises \<open>e\<close> (a body that is not
  JSON, a missing field, text that is not base64, bytes that are not an image, a
  failure of the model or of reading its output), the answer has status 200 and
  the body \<^verbatim>\<open>{"status": "error", "message": str(e)}\<close>. Every answer has
  status 200, and an answer that is not an error is a success body.
\<close>

theorem detect_catches_every_exception:
  "(raises d req e \<longrightarrow>
      detect d req = \<lparr>status_code = 200,
                       payload = JObj [(''status'', JStr ''error''),
                                       (''message'', JStr (str_exn e))]\<rparr>) \<and>
   status_code (detect d req) = 200 \<and>
   ((\<exists>e'. raises d req e') \<or>
    (\<exists>label c. payload (detect d req) =
        JObj [(''status'', JStr ''success''), (''prediction'', JStr label),
              (''confidence'', JFloat c)]))"
proof (intro conjI impI)
  assume "raises d req e"
  then show "detect d req = \<lparr>status_code = 200,
                       payload = JObj [(''status'', JStr ''error''),
                                       (''message'', JStr (str_exn e))]\<rparr>"
    by (simp add: raises_iff detect_def error_response_def jsonify_def)
next
  show "status_code (detect d req) = 200"
    by (auto simp: detect_def error_response_def jsonify_def detect_try_def bind_exn_def
        split: sum.splits)
next
  show "(\<exists>e'. raises d req e') \<or>
    (\<exists>label c. payload (detect d req) =
        JObj [(''status'', JStr ''success''), (''prediction'', JStr label),
              (''confidence'', JFloat c)])"
  proof (cases "detect_try d req")
    case (Inl e1)
    then show ?thesis using raises_iff by blast
  next
    case (Inr r)
    then have "\<exists>label c. r = jsonify (JObj [(''status'', JStr ''success''), (''prediction'', JStr label),
              (''confidence'', JFloat c)])"
      by (auto simp: detect_try_def bind_exn_eq_Inr)
    with Inr show ?thesis by (auto simp: detect_def jsonify_def)
  qed
qed

theorem detect_catches_every_exception_witness:
  "raises example_deps empty_image_request (Raised ''UnidentifiedImageError'' ''cannot identify image file'') \<and>
   detect example_deps empty_image_request =
     \<lparr>status_code = 200,
      payload = JObj [(''status'', JStr ''error''),
                      (''message'', JStr ''cannot identify image file'')]\<rparr>"
proof -
  have sub: "subscript (JObj [(''image'', JStr [])]) ''image'' = Inr (JStr [])" by simp
  have dec: "b64decode example_deps (JStr []) = Inr []"
    by (simp add: example_deps_def)
  have opn: "Image_open example_deps [] =
               Inl (Raised ''UnidentifiedImageError'' ''cannot identify image file'')"
    by (simp add: example_deps_def)
  have r: "raises example_deps empty_image_request
             (Raised ''UnidentifiedImageError'' ''cannot identify image file'')"
    using example_get_json(4) sub dec opn by (rule raises.bad_image_bytes)
  show ?thesis
    using r detect_catches_every_exception [of example_deps empty_image_request
        "Raised ''UnidentifiedImageError'' ''cannot identify image file''"]
    by simp
qed

text \<open>
  Claim C3. Preprocessing is the specification's list of steps in its order and
  nothing else. When the text decodes as base64, the bytes decode as an image,
  and conversion to RGB, resizing to 224 by 224 (whatever the size was) and the
  float array succeed one after the other, the array handed to the model is the
  float array with every value divided by 255 and one batch axis in front. With
  the libraries keeping their contracts its shape is (1, 224, 224, 3) and all
  its values lie between 0 and 1.
\<close>

theorem preprocess_steps:
  assumes "library_contract d"
    and "b64decode d s = Inr bs" and "Image_open d bs = Inr opened"
    and "convert d opened ''RGB'' = Inr rgb" and "resize d rgb (224, 224) = Inr resized"
    and "img_to_array d resized = Inr arr"
  shows "preprocess d s =
           Inr \<lparr>shape = [1, 224, 224, 3],
                elems = map (\<lambda>v. float_round d (v / 255)) (elems arr)\<rparr> \<and>
         preprocess d s = spec_preprocess d s \<and>
         (\<forall>v \<in> set (map (\<lambda>v. float_round d (v / 255)) (elems arr)). 0 \<le> v \<and> v \<le> 1)"
proof -
  from assms(1) have
      conv: "\<And>im m im'. convert d im m = Inr im' \<Longrightarrow> mode im' = m"
      and res: "\<And>im sz im'. resize d im sz = Inr im' \<Longrightarrow> dims im' = sz \<and> mode im' = mode im"
      and arr: "\<And>im a. img_to_array d im = Inr a \<Longrightarrow> mode im = ''RGB'' \<Longrightarrow>
                  shape a = [snd (dims im), fst (dims im), 3] \<and>
                  (\<forall>v \<in> set (elems a). 0 \<le> v \<and> v \<le> 255)"
      and mono: "\<And>x y. x \<le> y \<Longrightarrow> float_round d x \<le> float_round d y"
      and r0: "float_round d 0 = 0" and r1: "float_round d 1 = 1"
    unfolding library_contract_def by blast+
  have "mode rgb = ''RGB''" using conv [OF assms(4)] .
  moreover have "dims resized = (224, 224)" "mode resized = mode rgb"
    using res [OF assms(5)] by simp_all
  ultimately have is_rgb: "mode resized = ''RGB''" and size: "dims resized = (224, 224)"
    by simp_all
  have shape_arr: "shape arr = [224, 224, 3]"
    using arr [OF assms(6) is_rgb] size by simp
  have bytes: "\<forall>v \<in> set (elems arr). 0 \<le> v \<and> v \<le> 255"
    using arr [OF assms(6) is_rgb] by simp
  have unit: "0 \<le> float_round d (v / 255) \<and> float_round d (v / 255) \<le> 1"
    if "v \<in> set (elems arr)" for v
  proof -
    from that bytes have "0 \<le> v / 255" "v / 255 \<le> 1" by auto
    then have "float_round d 0 \<le> float_round d (v / 255)"
        "float_round d (v / 255) \<le> float_round d 1"
      by (auto intro: mono)
    then show ?thesis by (simp add: r0 r1)
  qed
  have "preprocess d s =
           Inr \<lparr>shape = [1, 224, 224, 3],
                elems = map (\<lambda>v. float_round d (v / 255)) (elems arr)\<rparr>"
    using assms(2-6) shape_arr
    by (simp add: preprocess_def bind_exn_Inr np_expand_dims_def np_true_divide_def)
  moreover have "preprocess d s = spec_preprocess d s"
    by (rule preprocess_refines)
  moreover have "\<forall>v \<in> set (map (\<lambda>v. float_round d (v / 255)) (elems arr)). 0 \<le> v \<and> v \<le> 1"
    using unit by auto
  ultimately show ?thesis by blast
qed

theorem preprocess_steps_witness:
  "library_contract example_deps \<and>
   preprocess example_deps (JStr ''QUJD'') = Inr example_tensor \<and>
   spec_preprocess example_deps (JStr ''QUJD'') = Inr example_tensor \<and>
   shape example_tensor = [1, 224, 224, 3] \<and>
   set (elems example_tensor) \<subseteq> {0..1}"
proof -
  note steps = preprocess_steps [OF example_library_contract example_steps]
  have exact: "float_round example_deps = (\<lambda>x. x)"
    by (simp add: example_deps_def)
  have pre: "preprocess example_deps (JStr ''QUJD'') = Inr example_tensor"
    using steps [THEN conjunct1] by (simp add: exact example_tensor_def)
  have spec: "spec_preprocess example_deps (JStr ''QUJD'') = Inr example_tensor"
    using steps [THEN conjunct2, THEN conjunct1] pre by simp
  have "set (elems example_tensor) \<subseteq> {0..1}"
    using steps [THEN conjunct2, THEN conjunct2] by (simp add: exact example_tensor_def)
  then show ?thesis
    using example_library_contract pre spec by (simp add: example_tensor_def)
qed

text \<open>
  Claim C4. When the model has answered with a row that is not empty, the
  class index is the first index that holds the largest value of the row (every
  value is at most that one, every earlier value is smaller), \<^verbatim>\<open>np.max\<close> of
  the row is the value at that index, and the response of \<open>detect\<close> carries
  that value as its confidence, next to the label at that index; an index
  beyond the labels gives the error response of the failed lookup.
\<close>

theorem confidence_is_first_maximum:
  assumes "get_json d req = Inr data" and "subscript data ''image'' = Inr s"
    and "preprocess d s = Inr t" and "predict d t = Inr (row # rest)" and "row \<noteq> []"
  shows "\<exists>i. np_argmax row = Inr i \<and> i < length row \<and>
             (\<forall>j<length row. row ! j \<le> row ! i) \<and> (\<forall>j<i. row ! j < row ! i) \<and>
             np_max row = Inr (row ! i) \<and>
             detect d req =
               (case list_getitem class_labels i of
                  Inl e \<Rightarrow> error_response e
                | Inr label \<Rightarrow>
                    jsonify (JObj [(''status'', JStr ''success''),
                                   (''prediction'', JStr label),
                                   (''confidence'', JFloat (row ! i))]))"
proof -
  obtain i where i: "np_argmax row = Inr i" "i < length row"
      "\<forall>j<length row. row ! j \<le> row ! i" "\<forall>j<i. row ! j < row ! i"
      "np_max row = Inr (row ! i)"
    using np_argmax_first_max [OF assms(5)] by blast
  have "detect d req =
          (case list_getitem class_labels i of
             Inl e \<Rightarrow> error_response e
           | Inr label \<Rightarrow>
               jsonify (JObj [(''status'', JStr ''success''),
                              (''prediction'', JStr label),
                              (''confidence'', JFloat (row ! i))]))"
    using detect_try_after_predict [OF assms(1-4) i(1) i(5)]
    by (cases "list_getitem class_labels i") (simp_all add: detect_def bind_exn_def)
  with i show ?thesis by blast
qed

theorem confidence_is_first_maximum_witness:
  "predict tied_deps example_tensor = Inr [[1/2, 1/2]] \<and>
   np_argmax [1/2, 1/2] = Inr 0 \<and> np_max [1/2, 1/2] = Inr (1/2) \<and>
   detect tied_deps example_request =
     jsonify (JObj [(''status'', JStr ''success''), (''prediction'', JStr ''mask''),
                    (''confidence'', JFloat (1/2))])"
proof -
  have sub: "subscript (JObj [(''image'', JStr ''QUJD'')]) ''image'' = Inr (JStr ''QUJD'')"
    by simp
  have ne: "[1/2, 1/2 :: real] \<noteq> []" by simp
  have arg: "np_argmax [1/2, 1/2] = Inr 0"
    by (simp add: np_argmax_def)
  have mx: "np_max [1/2, 1/2] = Inr (1/2)"
    by (simp add: np_max_def)
  have lab: "list_getitem class_labels 0 = Inr ''mask''"
    by (simp add: list_getitem_def class_labels_def)
  from confidence_is_first_maximum [OF example_get_json(2) sub tied_preprocess example_predict(2) ne]
  have "detect tied_deps example_request =
     jsonify (JObj [(''status'', JStr ''success''), (''prediction'', JStr ''mask''),
                    (''confidence'', JFloat (1/2))])"
    by (auto simp: arg lab)
  then show ?thesis
    using arg mx example_predict(2) by simp
qed

text \<open>
  Claim C5. When the body is a JSON object without the key \<^verbatim>\<open>image\<close>, the
  subscript raises \<^verbatim>\<open>KeyError('image')\<close> and \<open>detect\<close> answers with the
  error body that carries the text of that exception.
\<close>

theorem detect_missing_image:
  assumes "get_json d req = Inr (JObj kvs)" and "map_of kvs ''image'' = None"
  shows "detect_try d req = Inl (KeyError ''image'') \<and>
         detect d req = jsonify (JObj [(''status'', JStr ''error''),
                                       (''message'', JStr (py_repr ''image''))])"
  using assms by (simp add: detect_def detect_try_def bind_exn_def error_response_def)

theorem detect_missing_image_witness:
  "get_json example_deps empty_object_request = Inr (JObj []) \<and>
   detect_try example_deps empty_object_request = Inl (KeyError ''image'') \<and>
   detect example_deps empty_object_request =
     jsonify (JObj [(''status'', JStr ''error''), (''message'', JStr (py_repr ''image''))])"
proof -
  have absent: "map_of ([] :: (string \<times> json) list) ''image'' = None" by simp
  show ?thesis
    using detect_missing_image [OF example_get_json(3) absent] example_get_json(3)
    by simp
qed

section \<open>Certificate provisioning at start-up\<close>

text \<open>
  Claim C6. When both \<^verbatim>\<open>cert.pem\<close> and \<^verbatim>\<open>key.pem\<close> exist, provisioning
  raises nothing and leaves the world as it was: no file is written, the clock
  is not read and no randomness is drawn.
\<close>

theorem ensure_certificate_noop:
  assumes "path_exists w ''cert.pem''" and "path_exists w ''key.pem''"
  shows "ensure_certificate cr w = (Inr (), w)"
  using assms by (simp add: ensure_certificate_def)

theorem ensure_certificate_noop_witness:
  "path_exists provisioned_world ''cert.pem'' \<and> path_exists provisioned_world ''key.pem'' \<and>
   ensure_certificate example_crypto provisioned_world = (Inr (), provisioned_world) \<and>
   files provisioned_world ''cert.pem'' = Some [OtherBytes ''old certificate''] \<and>
   files provisioned_world ''key.pem'' = Some [OtherBytes ''old key'']"
proof -
  have c: "path_exists provisioned_world ''cert.pem''"
    by (simp add: path_exists_def provisioned_world_def)
  have k: "path_exists provisioned_world ''key.pem''"
    by (simp add: path_exists_def provisioned_world_def)
  show ?thesis
    using ensure_certificate_noop [OF c k, of example_crypto] c k
    by (simp add: provisioned_world_def)
qed

text \<open>
  Claim C7. When neither file exists and every step succeeds, provisioning
  completes, \<^verbatim>\<open>key.pem\<close> holds the generated key serialised as PEM,
  TraditionalOpenSSL, without encryption, and \<^verbatim>\<open>cert.pem\<close> holds the PEM of
  the certificate signed with that key and SHA-256 over the builder \<open>b\<close>. The
  subject of \<open>b\<close> has the one common name \<^verbatim>\<open>localhost\<close>, its issuer is its
  subject, its public key is the key's, and its one extension is the subject
  alternative name \<^verbatim>\<open>localhost\<close>, not critical. The code reads the clock
  twice: \<^verbatim>\<open>not_valid_before\<close> is the first reading, \<^verbatim>\<open>not_valid_after\<close>
  the second plus 365 days. The certificate keeps whole seconds, so its validity
  period is 365 days plus the number of seconds by which the second of the
  second reading is later than the second of the first. It is 365 days exactly
  when both readings fall in the same second, and not otherwise.
\<close>

theorem certificate_validity_window:
  assumes "\<not> path_exists w ''cert.pem''" and "\<not> path_exists w ''key.pem''"
    and "generate_private_key cr 65537 2048 (entropy w) = Inr (key, g)"
    and "private_bytes cr key PEM TraditionalOpenSSL NoEncryption = Inr key_pem"
    and "b = fst (certificate_builder cr key (w\<lparr>entropy := g\<rparr>))"
    and "sign cr b key SHA256 = Inr cert"
    and "public_bytes cr cert PEM = Inr cert_pem"
    and "unwritable w ''key.pem'' = None" and "write_errors w ''key.pem'' = None"
    and "unwritable w ''cert.pem'' = None" and "write_errors w ''cert.pem'' = None"
  shows "fst (ensure_certificate cr w) = Inr () \<and>
         files (snd (ensure_certificate cr w)) ''key.pem'' = Some [key_pem] \<and>
         files (snd (ensure_certificate cr w)) ''cert.pem'' = Some [cert_pem] \<and>
         map snd (filter (\<lambda>a. fst a = COMMON_NAME) (subject_name b)) = [''localhost''] \<and>
         issuer_name b = subject_name b \<and>
         subject_public_key b = public_key cr key \<and>
         extensions b = [(SubjectAlternativeName [DNSName ''localhost''], False)] \<and>
         not_valid_before b = clock w (reads w) \<and>
         not_valid_after b = clock w (Suc (reads w)) + timedelta_days 365 \<and>
         validity_seconds b =
           31536000 + (whole_seconds (clock w (Suc (reads w))) - whole_seconds (clock w (reads w)))"
proof -
  have run: "ensure_certificate cr w = generate_self_signed_cert cr ''cert.pem'' ''key.pem'' w"
    using assms(1) by (simp add: ensure_certificate_def)
  have signed: "sign cr (fst (certificate_builder cr key (w\<lparr>entropy := g\<rparr>))) key SHA256 = Inr cert"
    using assms(5,6) by simp
  have outcome: "fst (ensure_certificate cr w) = Inr ()"
      "files (snd (ensure_certificate cr w)) =
         (files w)(''key.pem'' \<mapsto> [key_pem], ''cert.pem'' \<mapsto> [cert_pem])"
    using generate_completes [OF assms(3) assms(8) assms(4) assms(9) signed assms(10) assms(7)
        assms(11)]
    by (simp_all add: run)
  have names: "subject_name b = [(COUNTRY_NAME, ''US''), (STATE_OR_PROVINCE_NAME, ''California''),
      (LOCALITY_NAME, ''San Francisco''), (ORGANIZATION_NAME, ''My Company''),
      (COMMON_NAME, ''localhost'')]" "issuer_name b = subject_name b"
      "subject_public_key b = public_key cr key"
      "extensions b = [(SubjectAlternativeName [DNSName ''localhost''], False)]"
    unfolding assms(5) using certificate_builder_names [of cr key "w\<lparr>entropy := g\<rparr>"] by simp_all
  have validity: "not_valid_before b = clock w (reads w)"
      "not_valid_after b = clock w (Suc (reads w)) + timedelta_days 365"
    unfolding assms(5) using certificate_builder_validity [of cr key "w\<lparr>entropy := g\<rparr>"]
    by simp_all
  have seconds: "validity_seconds b =
           31536000 + (whole_seconds (clock w (Suc (reads w))) - whole_seconds (clock w (reads w)))"
    unfolding assms(5) using certificate_builder_seconds [of cr key "w\<lparr>entropy := g\<rparr>"]
    by simp
  have "map snd (filter (\<lambda>a. fst a = COMMON_NAME) (subject_name b)) = [''localhost'']"
    by (simp add: names(1))
  then show ?thesis
    using outcome names(2-4) validity seconds by simp
qed

text \<open>
  In \<open>straddling_world\<close> the first reading is the last microsecond of a
  second and the next reading is the first microsecond of the next: the
  certificate written is valid for 365 days and one second.
\<close>

theorem validity_when_reads_straddle_a_second:
  "files straddling_world ''cert.pem'' = None \<and> files straddling_world ''key.pem'' = None \<and>
   clock straddling_world 0 = 1700000000999999 \<and>
   clock straddling_world 1 = 1700000001000000 \<and>
   fst (ensure_certificate example_crypto straddling_world) = Inr () \<and>
   files (snd (ensure_certificate example_crypto straddling_world)) ''cert.pem'' =
     Some [CertificateBytes (straddling_builder, 7, SHA256) PEM] \<and>
   whole_seconds (not_valid_before straddling_builder) = 1700000000 \<and>
   whole_seconds (not_valid_after straddling_builder) = 1700000001 + 31536000 \<and>
   validity_seconds straddling_builder = 31536000 + 1 \<and>
   validity_seconds straddling_builder \<noteq> 365 * 86400"
proof -
  have c: "\<not> path_exists straddling_world ''cert.pem''"
    by (simp add: path_exists_def straddling_world_def example_world_def)
  have k: "\<not> path_exists straddling_world ''key.pem''"
    by (simp add: path_exists_def straddling_world_def example_world_def)
  note run = certificate_validity_window [OF c k example_keygen(4) example_serialise(1)
      example_builder_eq(4) example_sign(1) example_serialise(3)
      example_writable(5) example_writable(6) example_writable(5) example_writable(6)]
  have t: "clock straddling_world 0 = 1700000000999999"
      "clock straddling_world 1 = 1700000001000000"
      "reads straddling_world = 0"
    by (simp_all add: straddling_world_def example_world_def)
  have before: "whole_seconds (not_valid_before straddling_builder) = 1700000000"
    by (simp add: straddling_builder_def whole_seconds_def)
  have after: "whole_seconds (not_valid_after straddling_builder) = 1700000001 + 31536000"
    by (simp add: straddling_builder_def whole_seconds_plus_year) (simp add: whole_seconds_def)
  have secs: "validity_seconds straddling_builder = 31536000 + 1"
    using before after by (simp add: validity_seconds_def)
  have "fst (ensure_certificate example_crypto straddling_world) = Inr ()"
    using run by blast
  moreover have "files (snd (ensure_certificate example_crypto straddling_world)) ''cert.pem'' =
     Some [CertificateBytes (straddling_builder, 7, SHA256) PEM]"
    using run by blast
  ultimately show ?thesis
    using c k t before after secs by (simp add: path_exists_def)
qed

text \<open>
  Claim C9, as the code has it. When exactly one of \<^verbatim>\<open>cert.pem\<close> and
  \<^verbatim>\<open>key.pem\<close> exists, provisioning runs \<open>generate_self_signed_cert\<close>.
  When key generation, the two serialisations and signing succeed and both
  files can be opened and written, the run completes and both files hold the
  new pair: the PEM of the key just generated and the PEM of the certificate
  just signed with it. What the directory held before has no part in it: from
  any other directory in which one of the two files is missing, the same run
  leaves the same two files.
\<close>

theorem one_missing_file_regenerates_both:
  fixes w :: "'b world"
  assumes "path_exists w ''cert.pem'' \<noteq> path_exists w ''key.pem''"
    and "generate_private_key cr 65537 2048 (entropy w) = Inr (key, g)"
    and "private_bytes cr key PEM TraditionalOpenSSL NoEncryption = Inr key_pem"
    and "sign cr (fst (certificate_builder cr key (w\<lparr>entropy := g\<rparr>))) key SHA256 = Inr cert"
    and "public_bytes cr cert PEM = Inr cert_pem"
    and "unwritable w ''key.pem'' = None" and "write_errors w ''key.pem'' = None"
    and "unwritable w ''cert.pem'' = None" and "write_errors w ''cert.pem'' = None"
  shows "ensure_certificate cr w = generate_self_signed_cert cr ''cert.pem'' ''key.pem'' w \<and>
         fst (ensure_certificate cr w) = Inr () \<and>
         files (snd (ensure_certificate cr w)) ''key.pem'' = Some [key_pem] \<and>
         files (snd (ensure_certificate cr w)) ''cert.pem'' = Some [cert_pem] \<and>
         (\<forall>f. f ''cert.pem'' = None \<or> f ''key.pem'' = None \<longrightarrow>
            fst (ensure_certificate cr (w\<lparr>files := f\<rparr>)) = Inr () \<and>
            files (snd (ensure_certificate cr (w\<lparr>files := f\<rparr>))) ''key.pem'' = Some [key_pem] \<and>
            files (snd (ensure_certificate cr (w\<lparr>files := f\<rparr>))) ''cert.pem'' = Some [cert_pem])"
proof -
  have any: "fst (ensure_certificate cr (w\<lparr>files := f\<rparr>)) = Inr () \<and>
            files (snd (ensure_certificate cr (w\<lparr>files := f\<rparr>))) ''key.pem'' = Some [key_pem] \<and>
            files (snd (ensure_certificate cr (w\<lparr>files := f\<rparr>))) ''cert.pem'' = Some [cert_pem]"
    if missing: "f ''cert.pem'' = None \<or> f ''key.pem'' = None" for f :: "string \<rightharpoonup> 'b list"
  proof -
    have run: "ensure_certificate cr (w\<lparr>files := f\<rparr>) =
               generate_self_signed_cert cr ''cert.pem'' ''key.pem'' (w\<lparr>files := f\<rparr>)"
      using missing by (auto simp: ensure_certificate_def path_exists_def)
    have same: "fst (certificate_builder cr key (w\<lparr>files := f, entropy := g\<rparr>)) =
                fst (certificate_builder cr key (w\<lparr>entropy := g\<rparr>))"
      by (simp add: certificate_builder_def utcnow_def Let_def)
    have "fst (generate_self_signed_cert cr ''cert.pem'' ''key.pem'' (w\<lparr>files := f\<rparr>)) = Inr () \<and>
         files (snd (generate_self_signed_cert cr ''cert.pem'' ''key.pem'' (w\<lparr>files := f\<rparr>))) =
           (files (w\<lparr>files := f\<rparr>))(''key.pem'' \<mapsto> [key_pem], ''cert.pem'' \<mapsto> [cert_pem])"
      by (rule generate_completes [where key = key and g = g and cert = cert])
        (simp_all add: assms(2-9) same)
    then show ?thesis by (simp add: run)
  qed
  have here: "files w ''cert.pem'' = None \<or> files w ''key.pem'' = None"
    using assms(1) by (auto simp: path_exists_def)
  have "w\<lparr>files := files w\<rparr> = w" by simp
  with any [OF here] have this_run:
      "fst (ensure_certificate cr w) = Inr ()"
      "files (snd (ensure_certificate cr w)) ''key.pem'' = Some [key_pem]"
      "files (snd (ensure_certificate cr w)) ''cert.pem'' = Some [cert_pem]"
    by simp_all
  have "ensure_certificate cr w = generate_self_signed_cert cr ''cert.pem'' ''key.pem'' w"
    using assms(1) by (auto simp: ensure_certificate_def)
  then show ?thesis
    using this_run any by blast
qed

theorem one_missing_file_regenerates_both_witness:
  "path_exists half_provisioned_world ''cert.pem'' \<and>
   \<not> path_exists half_provisioned_world ''key.pem'' \<and>
   files half_provisioned_world ''cert.pem'' = Some [OtherBytes ''old certificate''] \<and>
   ensure_certificate example_crypto half_provisioned_world =
     generate_self_signed_cert example_crypto ''cert.pem'' ''key.pem'' half_provisioned_world \<and>
   fst (ensure_certificate example_crypto half_provisioned_world) = Inr () \<and>
   files (snd (ensure_certificate example_crypto half_provisioned_world)) ''cert.pem'' =
     Some [CertificateBytes (example_builder, 7, SHA256) PEM] \<and>
   files (snd (ensure_certificate example_crypto half_provisioned_world)) ''key.pem'' =
     Some [PrivateKeyBytes 7 PEM TraditionalOpenSSL NoEncryption]"
proof -
  have c: "path_exists half_provisioned_world ''cert.pem''"
    by (simp add: path_exists_def half_provisioned_world_def)
  have k: "\<not> path_exists half_provisioned_world ''key.pem''"
    by (simp add: path_exists_def half_provisioned_world_def)
  have one: "path_exists half_provisioned_world ''cert.pem'' \<noteq>
             path_exists half_provisioned_world ''key.pem''"
    using c k by simp
  have old: "files half_provisioned_world ''cert.pem'' = Some [OtherBytes ''old certificate'']"
    by (simp add: half_provisioned_world_def)
  have signed: "sign example_crypto
      (fst (certificate_builder example_crypto 7 (half_provisioned_world\<lparr>entropy := 8\<rparr>))) 7 SHA256 =
      Inr (example_builder, 7, SHA256)"
    using example_sign(1) example_builder_eq(2) by simp
  note regenerated = one_missing_file_regenerates_both [OF one example_keygen(3)
      example_serialise(1) signed example_serialise(3)
      example_writable(3) example_writable(4) example_writable(3) example_writable(4)]
  have "ensure_certificate example_crypto half_provisioned_world =
          generate_self_signed_cert example_crypto ''cert.pem'' ''key.pem'' half_provisioned_world"
    using regenerated by blast
  moreover have "fst (ensure_certificate example_crypto half_provisioned_world) = Inr ()"
    using regenerated by blast
  moreover have "files (snd (ensure_certificate example_crypto half_provisioned_world)) ''key.pem'' =
      Some [PrivateKeyBytes 7 PEM TraditionalOpenSSL NoEncryption]"
    using regenerated by blast
  moreover have "files (snd (ensure_certificate example_crypto half_provisioned_world)) ''cert.pem'' =
      Some [CertificateBytes (example_builder, 7, SHA256) PEM]"
    using regenerated by blast
  ultimately show ?thesis
    using c k old by blast
qed

text \<open>
  Without those conditions the claim fails. In \<open>read_only_world\<close> only an old
  \<^verbatim>\<open>cert.pem\<close> exists and it cannot be opened for writing: provisioning
  runs, writes a new key, and stops with the error of the failed open. The old
  certificate is not overwritten, and at the next start both files exist, so
  provisioning does nothing and the old certificate stays beside the new key.
\<close>

theorem old_certificate_kept_beside_new_key:
  "path_exists read_only_world ''cert.pem'' \<and> \<not> path_exists read_only_world ''key.pem'' \<and>
   files read_only_world ''cert.pem'' = Some [OtherBytes ''old certificate''] \<and>
   fst (ensure_certificate example_crypto read_only_world) =
     Inl (Raised ''PermissionError'' ''[Errno 13] Permission denied'') \<and>
   files (snd (ensure_certificate example_crypto read_only_world)) ''cert.pem'' =
     Some [OtherBytes ''old certificate''] \<and>
   files (snd (ensure_certificate example_crypto read_only_world)) ''key.pem'' =
     Some [PrivateKeyBytes 7 PEM TraditionalOpenSSL NoEncryption] \<and>
   ensure_certificate example_crypto (snd (ensure_certificate example_crypto read_only_world)) =
     (Inr (), snd (ensure_certificate example_crypto read_only_world))"
proof -
  have "path_exists (snd (ensure_certificate example_crypto read_only_world)) ''cert.pem''"
      "path_exists (snd (ensure_certificate example_crypto read_only_world)) ''key.pem''"
    by (simp_all add: path_exists_def read_only_run)
  then have "ensure_certificate example_crypto (snd (ensure_certificate example_crypto read_only_world)) =
     (Inr (), snd (ensure_certificate example_crypto read_only_world))"
    by (simp add: ensure_certificate_def)
  moreover have "path_exists read_only_world ''cert.pem''" "\<not> path_exists read_only_world ''key.pem''"
      "files read_only_world ''cert.pem'' = Some [OtherBytes ''old certificate'']"
    by (simp_all add: path_exists_def read_only_world_def half_provisioned_world_def
        example_world_def)
  ultimately show ?thesis
    by (simp add: read_only_run)
qed

text \<open>
  Claim C10, as the code has it. The key file is written before the
  certificate is built, and nothing is rolled back. Take a call that has
  generated its key and written the key file. If building or signing the
  certificate raises \<open>e\<close>, or opening the certificate file does, the call
  ends with \<open>e\<close>, the key file holds the new key, and the certificate file is
  as it was before the call, absent if it was absent. If the certificate file
  was opened and serialising or writing the certificate raises \<open>e\<close>, the call
  ends with \<open>e\<close>, the key file holds the new key, and the certificate file
  exists and is empty.
\<close>

theorem key_file_survives_failure:
  assumes "generate_private_key cr 65537 2048 (entropy w) = Inr (key, g)"
    and "unwritable w key_file = None"
    and "private_bytes cr key PEM TraditionalOpenSSL NoEncryption = Inr key_pem"
    and "write_errors w key_file = None"
    and "cert_file \<noteq> key_file"
    and "b = fst (certificate_builder cr key (w\<lparr>entropy := g\<rparr>))"
  shows "(sign cr b key SHA256 = Inl e \<or>
          (\<exists>cert. sign cr b key SHA256 = Inr cert \<and> unwritable w cert_file = Some e) \<longrightarrow>
            fst (generate_self_signed_cert cr cert_file key_file w) = Inl e \<and>
            files (snd (generate_self_signed_cert cr cert_file key_file w)) key_file =
              Some [key_pem] \<and>
            files (snd (generate_self_signed_cert cr cert_file key_file w)) cert_file =
              files w cert_file) \<and>
         ((\<exists>cert. sign cr b key SHA256 = Inr cert \<and> unwritable w cert_file = None \<and>
             (public_bytes cr cert PEM = Inl e \<or>
              (\<exists>cert_pem. public_bytes cr cert PEM = Inr cert_pem \<and>
                          write_errors w cert_file = Some e))) \<longrightarrow>
            fst (generate_self_signed_cert cr cert_file key_file w) = Inl e \<and>
            files (snd (generate_self_signed_cert cr cert_file key_file w)) key_file =
              Some [key_pem] \<and>
            files (snd (generate_self_signed_cert cr cert_file key_file w)) cert_file =
              Some [])"
proof (intro conjI impI)
  assume "sign cr b key SHA256 = Inl e \<or>
          (\<exists>cert. sign cr b key SHA256 = Inr cert \<and> unwritable w cert_file = Some e)"
  then have "sign cr (fst (certificate_builder cr key (w\<lparr>entropy := g\<rparr>))) key SHA256 = Inl e \<or>
         (\<exists>cert. sign cr (fst (certificate_builder cr key (w\<lparr>entropy := g\<rparr>))) key SHA256 = Inr cert \<and>
                 unwritable w cert_file = Some e)"
    by (simp add: assms(6))
  from generate_fails_before_open [OF assms(1-4) this] assms(5)
  show "fst (generate_self_signed_cert cr cert_file key_file w) = Inl e"
    "files (snd (generate_self_signed_cert cr cert_file key_file w)) key_file = Some [key_pem]"
    "files (snd (generate_self_signed_cert cr cert_file key_file w)) cert_file = files w cert_file"
    by simp_all
next
  assume "\<exists>cert. sign cr b key SHA256 = Inr cert \<and> unwritable w cert_file = None \<and>
             (public_bytes cr cert PEM = Inl e \<or>
              (\<exists>cert_pem. public_bytes cr cert PEM = Inr cert_pem \<and>
                          write_errors w cert_file = Some e))"
  then obtain cert where
      sg: "sign cr (fst (certificate_builder cr key (w\<lparr>entropy := g\<rparr>))) key SHA256 = Inr cert"
      and uc: "unwritable w cert_file = None"
      and bad: "public_bytes cr cert PEM = Inl e \<or>
         (\<exists>cert_pem. public_bytes cr cert PEM = Inr cert_pem \<and> write_errors w cert_file = Some e)"
    by (auto simp: assms(6))
  from generate_fails_after_open [OF assms(1-4) sg uc bad] assms(5)
  show "fst (generate_self_signed_cert cr cert_file key_file w) = Inl e"
    "files (snd (generate_self_signed_cert cr cert_file key_file w)) key_file = Some [key_pem]"
    "files (snd (generate_self_signed_cert cr cert_file key_file w)) cert_file = Some []"
    by simp_all
qed

theorem key_file_survives_failure_witness:
  "fst (generate_self_signed_cert failing_crypto ''cert.pem'' ''key.pem'' example_world) =
     Inl (ValueError ''signing failed'') \<and>
   files (snd (generate_self_signed_cert failing_crypto ''cert.pem'' ''key.pem'' example_world))
     ''key.pem'' = Some [PrivateKeyBytes 7 PEM TraditionalOpenSSL NoEncryption] \<and>
   files (snd (generate_self_signed_cert failing_crypto ''cert.pem'' ''key.pem'' example_world))
     ''cert.pem'' = None \<and>
   fst (generate_self_signed_cert example_crypto ''cert.pem'' ''key.pem'' full_disk_world) =
     Inl (Raised ''OSError'' ''[Errno 28] No space left on device'') \<and>
   files (snd (generate_self_signed_cert example_crypto ''cert.pem'' ''key.pem'' full_disk_world))
     ''key.pem'' = Some [PrivateKeyBytes 7 PEM TraditionalOpenSSL NoEncryption] \<and>
   files (snd (generate_self_signed_cert example_crypto ''cert.pem'' ''key.pem'' full_disk_world))
     ''cert.pem'' = Some []"
proof -
  have ne: "''cert.pem'' \<noteq> ''key.pem''" by simp
  have sign_fails: "sign failing_crypto example_builder 7 SHA256 = Inl (ValueError ''signing failed'') \<or>
      (\<exists>cert. sign failing_crypto example_builder 7 SHA256 = Inr cert \<and>
              unwritable example_world ''cert.pem'' = Some (ValueError ''signing failed''))"
    by (simp add: example_sign(2))
  have write_fails: "\<exists>cert. sign example_crypto example_builder 7 SHA256 = Inr cert \<and>
      unwritable full_disk_world ''cert.pem'' = None \<and>
      (public_bytes example_crypto cert PEM =
         Inl (Raised ''OSError'' ''[Errno 28] No space left on device'') \<or>
       (\<exists>cert_pem. public_bytes example_crypto cert PEM = Inr cert_pem \<and>
          write_errors full_disk_world ''cert.pem'' =
            Some (Raised ''OSError'' ''[Errno 28] No space left on device'')))"
    by (simp add: example_sign(1) example_serialise(3) example_writable)
  have first: "fst (generate_self_signed_cert failing_crypto ''cert.pem'' ''key.pem'' example_world) =
       Inl (ValueError ''signing failed'') \<and>
     files (snd (generate_self_signed_cert failing_crypto ''cert.pem'' ''key.pem'' example_world))
       ''key.pem'' = Some [PrivateKeyBytes 7 PEM TraditionalOpenSSL NoEncryption] \<and>
     files (snd (generate_self_signed_cert failing_crypto ''cert.pem'' ''key.pem'' example_world))
       ''cert.pem'' = files example_world ''cert.pem''"
    using key_file_survives_failure [OF example_keygen(2) example_writable(1)
        example_serialise(2) example_writable(2) ne example_builder_eq(1),
        of "ValueError ''signing failed''"] sign_fails
    by blast
  have second: "fst (generate_self_signed_cert example_crypto ''cert.pem'' ''key.pem'' full_disk_world) =
       Inl (Raised ''OSError'' ''[Errno 28] No space left on device'') \<and>
     files (snd (generate_self_signed_cert example_crypto ''cert.pem'' ''key.pem'' full_disk_world))
       ''key.pem'' = Some [PrivateKeyBytes 7 PEM TraditionalOpenSSL NoEncryption] \<and>
     files (snd (generate_self_signed_cert example_crypto ''cert.pem'' ''key.pem'' full_disk_world))
       ''cert.pem'' = Some []"
    using key_file_survives_failure [OF example_keygen(5) example_writable(7)
        example_serialise(1) example_writable(8) ne example_builder_eq(3),
        of "Raised ''OSError'' ''[Errno 28] No space left on device''"] write_fails
    by blast
  have "files example_world ''cert.pem'' = None"
    by (simp add: example_world_def)
  with first second show ?thesis by simp
qed

text \<open>
  The certificate file need not be absent after a failure. In
  \<open>read_only_world\<close> the old \<^verbatim>\<open>cert.pem\<close> cannot be opened for writing and
  is still there after the failed run, beside the new key. In
  \<open>full_disk_world\<close> neither file exists before, \<^verbatim>\<open>cert.pem\<close> is opened and
  the write into it fails: the file exists, empty, beside the new key.
\<close>

theorem certificate_file_exists_after_failure:
  "files read_only_world ''key.pem'' = None \<and>
   fst (ensure_certificate example_crypto read_only_world) =
     Inl (Raised ''PermissionError'' ''[Errno 13] Permission denied'') \<and>
   files (snd (ensure_certificate example_crypto read_only_world)) ''key.pem'' =
     Some [PrivateKeyBytes 7 PEM TraditionalOpenSSL NoEncryption] \<and>
   files (snd (ensure_certificate example_crypto read_only_world)) ''cert.pem'' =
     Some [OtherBytes ''old certificate''] \<and>
   files full_disk_world ''cert.pem'' = None \<and> files full_disk_world ''key.pem'' = None \<and>
   fst (ensure_certificate example_crypto full_disk_world) =
     Inl (Raised ''OSError'' ''[Errno 28] No space left on device'') \<and>
   files (snd (ensure_certificate example_crypto full_disk_world)) ''key.pem'' =
     Some [PrivateKeyBytes 7 PEM TraditionalOpenSSL NoEncryption] \<and>
   files (snd (ensure_certificate example_crypto full_disk_world)) ''cert.pem'' = Some [] \<and>
   path_exists (snd (ensure_certificate example_crypto read_only_world)) ''cert.pem'' \<and>
   path_exists (snd (ensure_certificate example_crypto full_disk_world)) ''cert.pem''"
proof -
  have before: "files read_only_world ''key.pem'' = None"
      "files full_disk_world ''cert.pem'' = None" "files full_disk_world ''key.pem'' = None"
    by (simp_all add: read_only_world_def half_provisioned_world_def full_disk_world_def
        example_world_def)
  have after: "files (snd (ensure_certificate example_crypto read_only_world)) ''key.pem'' =
        Some [PrivateKeyBytes 7 PEM TraditionalOpenSSL NoEncryption]"
      "files (snd (ensure_certificate example_crypto read_only_world)) ''cert.pem'' =
        Some [OtherBytes ''old certificate'']"
      "files (snd (ensure_certificate example_crypto full_disk_world)) ''key.pem'' =
        Some [PrivateKeyBytes 7 PEM TraditionalOpenSSL NoEncryption]"
      "files (snd (ensure_certificate example_crypto full_disk_world)) ''cert.pem'' = Some []"
    by (simp_all add: read_only_run(2) full_disk_run(2))
  show ?thesis
    by (simp add: before after read_only_run(1) full_disk_run(1) path_exists_def)
qed

end
